theory Spec2Isabelle
  imports Complex_Main
begin

section \<open>Web Mercator tile arithmetic of \<open>tiles_demo.py\<close>\<close>

text \<open>
  The arithmetic of Python floats is modelled by the reals, exactly (no rounding).
  Python integers are \<open>int\<close>. A latitude is any float: a real number, an infinity or
  NaN (\<open>py_float\<close>), since the latitude is the one argument that is clamped and never
  checked. A longitude is a real: it is compared with its bounds before it is used, and a
  longitude that is NaN or infinite fails that comparison as any longitude outside the
  bounds does. Every \<open>raise\<close> of the source, and every exception that an operation of
  the source can throw (\<open>1 / 0.0\<close>, \<open>math.log\<close> of a non-positive number, \<open>math.tan\<close> of
  an infinity, \<open>math.floor\<close> of NaN, \<open>% 0\<close>), is a branch of the model that returns
  \<open>Inl\<close> of the error.
\<close>

subsection \<open>Errors\<close>

datatype message =
    LonOutOfRange
  | ZoomOutOfRange
  | GridNotOddPositive
  | MathDomainError
  | NaNToInteger
  | NegativeImageSize

datatype py_error = ValueError message | ZeroDivisionError | OSError

subsection \<open>Projection\<close>

text \<open>\<open>max(min(lat, 85.05112878), -85.05112878)\<close>, on the real numbers.\<close>

definition clamp_lat :: "real \<Rightarrow> real" where
  "clamp_lat lat = max (min lat 85.05112878) (- 85.05112878)"

text \<open>
  The same line on every float. Python's \<open>min(a, b)\<close> is \<open>b\<close> when \<open>b < a\<close> and \<open>a\<close>
  otherwise, \<open>max(a, b)\<close> is \<open>b\<close> when \<open>b > a\<close> and \<open>a\<close> otherwise, and a comparison
  with NaN is false: a NaN latitude comes out of the clamp as NaN.
\<close>

datatype py_float = Finite real | PosInf | NegInf | NaN

fun float_less :: "py_float \<Rightarrow> py_float \<Rightarrow> bool" where
  "float_less NaN b = False"
| "float_less a NaN = False"
| "float_less (Finite a) (Finite b) = (a < b)"
| "float_less (Finite a) PosInf = True"
| "float_less NegInf (Finite b) = True"
| "float_less NegInf PosInf = True"
| "float_less a b = False"

definition py_min :: "py_float \<Rightarrow> py_float \<Rightarrow> py_float" where
  "py_min a b = (if float_less b a then b else a)"

definition py_max :: "py_float \<Rightarrow> py_float \<Rightarrow> py_float" where
  "py_max a b = (if float_less a b then b else a)"

definition clamp_lat_float :: "py_float \<Rightarrow> py_float" where
  "clamp_lat_float lat = py_max (py_min lat (Finite 85.05112878)) (Finite (- 85.05112878))"

text \<open>\<open>math.radians\<close>, \<open>math.degrees\<close>, and \<open>int(.)\<close> of a float (truncation toward zero).\<close>

definition radians :: "real \<Rightarrow> real" where
  "radians d = d * (pi / 180)"

definition degrees :: "real \<Rightarrow> real" where
  "degrees r = r * (180 / pi)"

definition py_int :: "real \<Rightarrow> int" where
  "py_int v = (if 0 \<le> v then \<lfloor>v\<rfloor> else \<lceil>v\<rceil>)"

text \<open>
  In \<open>latlon_to_tile\<close> the clamped latitude is a real number or NaN. With NaN, the
  tangent, the cosine, the logarithm and \<open>y_norm\<close> are NaN and nothing raises until
  \<open>math.floor(y_norm * n)\<close>, which raises a ValueError (a NaN cannot be converted to an
  integer); \<open>math.floor(x_norm * n)\<close>, the line before, does not raise. An infinite
  latitude, which the clamp never returns, would make \<open>math.tan\<close> raise a ValueError.
\<close>

definition latlon_to_tile ::
  "py_float \<Rightarrow> real \<Rightarrow> int \<Rightarrow> int \<Rightarrow> py_error + (int \<times> int \<times> int \<times> int)" where
  "latlon_to_tile lat0 lon z tile_size =
    (let lat = clamp_lat_float lat0 in
     if \<not> (- 180 \<le> lon \<and> lon \<le> 180) then Inl (ValueError LonOutOfRange)
     else if \<not> (0 \<le> z \<and> z \<le> 22) then Inl (ValueError ZoomOutOfRange)
     else
       case lat of
         NaN \<Rightarrow> Inl (ValueError NaNToInteger)
       | PosInf \<Rightarrow> Inl (ValueError MathDomainError)
       | NegInf \<Rightarrow> Inl (ValueError MathDomainError)
       | Finite lat \<Rightarrow>
          (let n = (2::int) ^ nat z;
               lat_rad = radians lat;
               x_norm = (lon + 180) / 360
           in
             if cos lat_rad = 0 then Inl ZeroDivisionError
             else if tan lat_rad + 1 / cos lat_rad \<le> 0 then Inl (ValueError MathDomainError)
             else
               let y_norm = (1 - ln (tan lat_rad + 1 / cos lat_rad) / pi) / 2;
                   x_tile = \<lfloor>x_norm * real_of_int n\<rfloor>;
                   y_tile = \<lfloor>y_norm * real_of_int n\<rfloor>;
                   x_px_total = x_norm * real_of_int n * real_of_int tile_size;
                   y_px_total = y_norm * real_of_int n * real_of_int tile_size
               in
                 if tile_size = 0 then Inl ZeroDivisionError
                 else Inr (max 0 (min x_tile (n - 1)),
                           max 0 (min y_tile (n - 1)),
                           py_int x_px_total mod tile_size,
                           py_int y_px_total mod tile_size)))"

text \<open>
  \<open>tile_to_bounds\<close> validates nothing; \<open>2 ** z\<close> is an integer for \<open>z \<ge> 0\<close> and a float
  for \<open>z < 0\<close>, and \<open>/\<close> is true division either way.
\<close>

definition pow2 :: "int \<Rightarrow> real" where
  "pow2 z = (if 0 \<le> z then 2 ^ nat z else 1 / 2 ^ nat (- z))"

definition lon_deg :: "real \<Rightarrow> int \<Rightarrow> real" where
  "lon_deg n tx = real_of_int tx / n * 360 - 180"

definition lat_deg :: "real \<Rightarrow> int \<Rightarrow> real" where
  "lat_deg n ty = degrees (arctan (sinh (pi * (1 - 2 * real_of_int ty / n))))"

definition tile_to_bounds :: "int \<Rightarrow> int \<Rightarrow> int \<Rightarrow> real \<times> real \<times> real \<times> real" where
  "tile_to_bounds x y z =
    (let n = pow2 z;
         lon_min = lon_deg n x;
         lon_max = lon_deg n (x + 1);
         lat_min = lat_deg n (y + 1);
         lat_max = lat_deg n y
     in (lon_min, lat_min, lon_max, lat_max))"

subsection \<open>Grid renderer\<close>

text \<open>
  The image is the canvas size, its background and the drawing calls made on it, in order.
  A text that the source formats with an f-string is kept as the values it formats
  (the tile label \<open>X={xt}  Y={yt}\nZ={z}\<close>, the header caption). The font is the size
  asked of \<open>try_load_font\<close>, which never fails.
\<close>

type_synonym rgb = "nat \<times> nat \<times> nat"

datatype font = Font nat

datatype text_content =
    TileLabel int int int
  | Header py_float real int int int int int int

datatype draw_op =
    Line "int \<times> int" "int \<times> int" rgb int
  | Text "int \<times> int" text_content rgb font
  | Ellipse "int \<times> int \<times> int \<times> int" rgb rgb

record image =
  img_width :: int
  img_height :: int
  img_background :: rgb
  img_ops :: "draw_op list"

text \<open>\<open>Image.new("RGB", (w, h), color)\<close>: Pillow refuses a negative size with a ValueError.\<close>

definition Image_new :: "int \<Rightarrow> int \<Rightarrow> rgb \<Rightarrow> py_error + image" where
  "Image_new w h color =
    (if w < 0 \<or> h < 0 then Inl (ValueError NegativeImageSize)
     else Inr \<lparr>img_width = w, img_height = h, img_background = color, img_ops = []\<rparr>)"

definition try_load_font :: "nat \<Rightarrow> font" where
  "try_load_font sz = Font sz"

definition draw :: "draw_op list \<Rightarrow> image \<Rightarrow> image" where
  "draw new img = img\<lparr>img_ops := img_ops img @ new\<rparr>"

text \<open>
  The two loops of \<open>draw_grid\<close>: \<open>range(grid + 1)\<close> and the nested \<open>range(grid)\<close>.
  The drawing part of \<open>draw_grid\<close>, after the canvas is allocated, is \<open>render_canvas\<close>.
\<close>

definition grid_lines :: "int \<Rightarrow> int \<Rightarrow> int \<Rightarrow> int \<Rightarrow> draw_op list" where
  "grid_lines grid tile_size width height =
    concat (map (\<lambda>i. [Line (i * tile_size, 0) (i * tile_size, height) (0, 0, 0) 1,
                       Line (0, i * tile_size) (width, i * tile_size) (0, 0, 0) 1])
                [0..grid])"

definition tile_labels :: "int \<Rightarrow> int \<Rightarrow> int \<Rightarrow> int \<Rightarrow> int \<Rightarrow> int \<Rightarrow> font \<Rightarrow> draw_op list" where
  "tile_labels x_c y_c z grid half tile_size fnt =
    concat (map (\<lambda>gy.
      map (\<lambda>gx.
        let xt = x_c + (gx - half);
            yt = y_c + (gy - half);
            tx = gx * tile_size + 6;
            ty = gy * tile_size + 6
        in Text (tx, ty) (TileLabel xt yt z) (0, 0, 0) fnt)
        [0..grid - 1])
      [0..grid - 1])"

definition render_canvas ::
  "py_float \<Rightarrow> real \<Rightarrow> int \<Rightarrow> int \<Rightarrow> int \<Rightarrow> int \<times> int \<times> int \<times> int \<Rightarrow> image \<Rightarrow> image" where
  "render_canvas lat lon z grid tile_size center img =
    (case center of (x_c, y_c, px, py) \<Rightarrow>
       let half = grid div 2;
           width = grid * tile_size;
           height = grid * tile_size;
           fnt = try_load_font 14;
           font_big = try_load_font 18;
           img1 = draw (grid_lines grid tile_size width height) img;
           img2 = draw (tile_labels x_c y_c z grid half tile_size fnt) img1;
           cx = half * tile_size + px;
           cy = half * tile_size + py;
           r = 4;
           img3 = draw [Ellipse (cx - r, cy - r, cx + r, cy + r) (220, 0, 0) (0, 0, 0)] img2;
           header = Header lat lon z x_c y_c px py tile_size
       in draw [Text (10, height - 40) header (0, 0, 0) font_big] img3)"

definition draw_grid :: "py_float \<Rightarrow> real \<Rightarrow> int \<Rightarrow> int \<Rightarrow> int \<Rightarrow> py_error + image" where
  "draw_grid lat lon z grid tile_size =
    (if grid mod 2 = 0 \<or> grid < 1 then Inl (ValueError GridNotOddPositive)
     else
       case latlon_to_tile lat lon z tile_size of
         Inl e \<Rightarrow> Inl e
       | Inr center \<Rightarrow>
           (case Image_new (grid * tile_size) (grid * tile_size) (255, 255, 255) of
              Inl e \<Rightarrow> Inl e
            | Inr img \<Rightarrow> Inr (render_canvas lat lon z grid tile_size center img)))"

text \<open>The drawing calls that write a tile label, among all those made on an image.\<close>

fun is_tile_label :: "draw_op \<Rightarrow> bool" where
  "is_tile_label (Text _ (TileLabel _ _ _) _ _) = True"
| "is_tile_label _ = False"

subsection \<open>Batch driver\<close>











section \<open>Properties\<close>

subsection \<open>The projection never leaves its domain\<close>

text \<open>
  After clamping, the latitude in radians lies strictly inside \<open>(-pi/2, pi/2)\<close>, where the
  cosine is positive and the argument of the logarithm is positive: neither the division
  nor \<open>math.log\<close> can raise.
\<close>

lemma clamp_lat_bounds: "- 85.05112878 \<le> clamp_lat v" "clamp_lat v \<le> 85.05112878"
  by (simp_all add: clamp_lat_def max_def min_def)

lemma radians_clamp_range: "- (pi / 2) < radians (clamp_lat v)" "radians (clamp_lat v) < pi / 2"
proof -
  have lo: "- 90 < clamp_lat v" and hi: "clamp_lat v < 90"
    using clamp_lat_bounds [of v] by simp_all
  have "(- 90) * (pi / 180) < clamp_lat v * (pi / 180)"
    using lo by (intro mult_strict_right_mono) simp_all
  then show "- (pi / 2) < radians (clamp_lat v)"
    by (simp add: radians_def)
  have "clamp_lat v * (pi / 180) < 90 * (pi / 180)"
    using hi by (intro mult_strict_right_mono) simp_all
  then show "radians (clamp_lat v) < pi / 2"
    by (simp add: radians_def)
qed

lemma mercator_arg_pos:
  assumes "- (pi / 2) < r" "r < pi / 2"
  shows "0 < cos r" and "0 < tan r + 1 / cos r"
proof -
  show c: "0 < cos r"
    using assms by (rule cos_gt_zero_pi)
  have "sin r \<noteq> - 1"
  proof
    assume "sin r = - 1"
    then have "(cos r)\<^sup>2 = 0"
      using sin_cos_squared_add [of r] by simp
    with c show False by simp
  qed
  then have s: "0 < sin r + 1"
    using sin_ge_minus_one [of r] by linarith
  have "tan r + 1 / cos r = (sin r + 1) / cos r"
    by (simp add: tan_def add_divide_distrib)
  with s c show "0 < tan r + 1 / cos r"
    by simp
qed

lemma clamp_lat_float_Finite: "clamp_lat_float (Finite v) = Finite (clamp_lat v)"
  by (simp add: clamp_lat_float_def py_min_def py_max_def clamp_lat_def max_def min_def)

lemma clamp_lat_float_PosInf: "clamp_lat_float PosInf = Finite 85.05112878"
  and clamp_lat_float_NegInf: "clamp_lat_float NegInf = Finite (- 85.05112878)"
  and clamp_lat_float_NaN: "clamp_lat_float NaN = NaN"
  by (simp_all add: clamp_lat_float_def py_min_def py_max_def)

lemma clamp_lat_float_real:
  assumes "lat \<noteq> NaN"
  shows "\<exists>v. clamp_lat_float lat = Finite (clamp_lat v)"
proof (cases lat)
  case (Finite v)
  then show ?thesis
    by (auto simp add: clamp_lat_float_Finite)
next
  case PosInf
  have "clamp_lat 85.05112878 = 85.05112878"
    by (simp add: clamp_lat_def)
  with PosInf show ?thesis
    by (metis clamp_lat_float_PosInf)
next
  case NegInf
  have "clamp_lat (- 85.05112878) = - 85.05112878"
    by (simp add: clamp_lat_def)
  with NegInf show ?thesis
    by (metis clamp_lat_float_NegInf)
next
  case NaN
  with assms show ?thesis by simp
qed

lemma clamp_lat_float_idem: "clamp_lat_float (clamp_lat_float lat) = clamp_lat_float lat"
  by (cases lat)
    (simp_all add: clamp_lat_float_Finite clamp_lat_float_PosInf clamp_lat_float_NegInf
      clamp_lat_float_NaN clamp_lat_def)

lemma latlon_to_tile_clamped:
  assumes "clamp_lat_float lat = Finite (clamp_lat v)"
    and "- 180 \<le> lon" "lon \<le> 180" "0 \<le> z" "z \<le> 22" "tile_size \<noteq> 0"
  shows "latlon_to_tile lat lon z tile_size =
    Inr (max 0 (min \<lfloor>(lon + 180) / 360 * real_of_int (2 ^ nat z)\<rfloor> (2 ^ nat z - 1)),
         max 0 (min \<lfloor>(1 - ln (tan (radians (clamp_lat v)) + 1 / cos (radians (clamp_lat v))) / pi) / 2
                      * real_of_int (2 ^ nat z)\<rfloor> (2 ^ nat z - 1)),
         py_int ((lon + 180) / 360 * real_of_int (2 ^ nat z) * real_of_int tile_size) mod tile_size,
         py_int ((1 - ln (tan (radians (clamp_lat v)) + 1 / cos (radians (clamp_lat v))) / pi) / 2
                  * real_of_int (2 ^ nat z) * real_of_int tile_size) mod tile_size)"
proof -
  have c: "0 < cos (radians (clamp_lat v))"
    and t: "0 < tan (radians (clamp_lat v)) + 1 / cos (radians (clamp_lat v))"
    using mercator_arg_pos [OF radians_clamp_range] by blast+
  from c have c0: "cos (radians (clamp_lat v)) \<noteq> 0" by simp
  from t have t0: "\<not> tan (radians (clamp_lat v)) + 1 / cos (radians (clamp_lat v)) \<le> 0" by simp
  show ?thesis
    unfolding latlon_to_tile_def Let_def assms(1) using assms(2-6) c0 t0 by simp
qed

lemma latlon_to_tile_valid:
  assumes "- 180 \<le> lon" "lon \<le> 180" "0 \<le> z" "z \<le> 22" "tile_size \<noteq> 0"
  shows "latlon_to_tile (Finite lat) lon z tile_size =
    Inr (max 0 (min \<lfloor>(lon + 180) / 360 * real_of_int (2 ^ nat z)\<rfloor> (2 ^ nat z - 1)),
         max 0 (min \<lfloor>(1 - ln (tan (radians (clamp_lat lat)) + 1 / cos (radians (clamp_lat lat))) / pi) / 2
                      * real_of_int (2 ^ nat z)\<rfloor> (2 ^ nat z - 1)),
         py_int ((lon + 180) / 360 * real_of_int (2 ^ nat z) * real_of_int tile_size) mod tile_size,
         py_int ((1 - ln (tan (radians (clamp_lat lat)) + 1 / cos (radians (clamp_lat lat))) / pi) / 2
                  * real_of_int (2 ^ nat z) * real_of_int tile_size) mod tile_size)"
  by (rule latlon_to_tile_clamped [OF clamp_lat_float_Finite assms])

lemma latlon_to_tile_not_NaN:
  assumes "lat \<noteq> NaN"
    and "- 180 \<le> lon" "lon \<le> 180" "0 \<le> z" "z \<le> 22" "tile_size \<noteq> 0"
  shows "\<exists>t. latlon_to_tile lat lon z tile_size = Inr t"
proof -
  obtain v where "clamp_lat_float lat = Finite (clamp_lat v)"
    using clamp_lat_float_real [OF assms(1)] by blast
  from latlon_to_tile_clamped [OF this assms(2-6)] show ?thesis
    by blast
qed

lemma latlon_to_tile_NaN:
  assumes "- 180 \<le> lon" "lon \<le> 180" "0 \<le> z" "z \<le> 22"
  shows "latlon_to_tile NaN lon z tile_size = Inl (ValueError NaNToInteger)"
  using assms by (simp add: latlon_to_tile_def clamp_lat_float_NaN)

lemma latlon_to_tile_clamp_first:
  "latlon_to_tile lat lon z tile_size = latlon_to_tile (clamp_lat_float lat) lon z tile_size"
  by (simp add: latlon_to_tile_def clamp_lat_float_idem)

lemma tile_and_pixel_range:
  fixes a b c d tile_size :: int
  assumes "0 < tile_size"
  shows "\<exists>x y px py.
    (Inr (max 0 (min a (2 ^ k - 1)), max 0 (min b (2 ^ k - 1)), c mod tile_size, d mod tile_size)
      :: py_error + int \<times> int \<times> int \<times> int) = Inr (x, y, px, py)
    \<and> 0 \<le> x \<and> x < 2 ^ k \<and> 0 \<le> y \<and> y < 2 ^ k
    \<and> 0 \<le> px \<and> px < tile_size \<and> 0 \<le> py \<and> py < tile_size"
  using assms by (simp add: max_def min_def)

lemma clamp_lat_clamp_lat: "clamp_lat (clamp_lat v) = clamp_lat v"
  by (simp add: clamp_lat_def max_def min_def)

subsection \<open>Clamping\<close>

text \<open>
  C9. For every real \<open>v\<close>, clamping twice is clamping once, and \<open>clamp_lat\<close> (which has no
  failing branch) returns a value in \<open>[-85.05112878, 85.05112878]\<close>.
\<close>

theorem clamp_lat_idempotent_in_range:
  "clamp_lat (clamp_lat v) = clamp_lat v
   \<and> - 85.05112878 \<le> clamp_lat v \<and> clamp_lat v \<le> 85.05112878"
  by (simp add: clamp_lat_def max_def min_def)

subsection \<open>Forward projection\<close>

text \<open>
  C1. For a latitude in \<open>[-85.0511, 85.0511]\<close>, a longitude in \<open>[-180, 180]\<close>, a zoom in
  \<open>[0, 22]\<close> and a positive tile size, \<open>latlon_to_tile\<close> returns a tile \<open>(x, y)\<close> with
  \<open>0 \<le> x, y < 2^zoom\<close> and a pixel offset \<open>(px, py)\<close> of integers in \<open>[0, tile_size)\<close>.
\<close>

theorem latlon_to_tile_range:
  assumes "- 85.0511 \<le> lat" "lat \<le> 85.0511"
    and "- 180 \<le> lon" "lon \<le> 180"
    and "0 \<le> z" "z \<le> 22"
    and "0 < tile_size"
  shows "\<exists>x y px py. latlon_to_tile (Finite lat) lon z tile_size = Inr (x, y, px, py)
    \<and> 0 \<le> x \<and> x < 2 ^ nat z \<and> 0 \<le> y \<and> y < 2 ^ nat z
    \<and> 0 \<le> px \<and> px < tile_size \<and> 0 \<le> py \<and> py < tile_size"
proof -
  from assms have "tile_size \<noteq> 0" by simp
  note eq = latlon_to_tile_valid [OF assms(3-6) this, of lat]
  show ?thesis
    unfolding eq
    by (rule tile_and_pixel_range [OF \<open>0 < tile_size\<close>])
qed

theorem latlon_to_tile_range_witness:
  "\<exists>x y px py. latlon_to_tile (Finite 53.1959) 50.1008 12 256 = Inr (x, y, px, py)
    \<and> 0 \<le> x \<and> x < 2 ^ nat 12 \<and> 0 \<le> y \<and> y < 2 ^ nat 12
    \<and> 0 \<le> px \<and> px < 256 \<and> 0 \<le> py \<and> py < 256"
  by (rule latlon_to_tile_range) simp_all

text \<open>
  C3. \<open>latlon_to_tile\<close> fails with a ValueError when the longitude is outside
  \<open>[-180, 180]\<close> (checked first) or the zoom is outside \<open>[0, 22]\<close>, whatever the latitude.
  With both in range it does not return a result for every latitude: a NaN latitude
  passes the clamp and the two checks, and \<open>math.floor\<close> raises a ValueError.
\<close>

theorem latlon_to_tile_validation_counterexample:
  "- 180 \<le> (0::real) \<and> (0::real) \<le> 180 \<and> 0 \<le> (0::int) \<and> (0::int) \<le> 22
   \<and> latlon_to_tile NaN 0 0 256 = Inl (ValueError NaNToInteger)"
  by (simp add: latlon_to_tile_def clamp_lat_float_NaN)

text \<open>
  C3, amended. \<open>latlon_to_tile\<close> fails with a ValueError when the longitude is outside
  \<open>[-180, 180]\<close> (checked first) or the zoom is outside \<open>[0, 22]\<close>, whatever the latitude,
  and returns a result when both are in range and the latitude is not NaN (the tile size
  being non-zero, as the default 256 is).
\<close>

theorem latlon_to_tile_validation:
  "(lon < - 180 \<or> 180 < lon \<longrightarrow> latlon_to_tile lat lon z tile_size = Inl (ValueError LonOutOfRange))
   \<and> (- 180 \<le> lon \<and> lon \<le> 180 \<and> (z < 0 \<or> 22 < z) \<longrightarrow>
        latlon_to_tile lat lon z tile_size = Inl (ValueError ZoomOutOfRange))
   \<and> (- 180 \<le> lon \<and> lon \<le> 180 \<and> 0 \<le> z \<and> z \<le> 22 \<and> tile_size \<noteq> 0 \<and> lat \<noteq> NaN \<longrightarrow>
        (\<exists>t. latlon_to_tile lat lon z tile_size = Inr t))"
proof (intro conjI impI)
  assume "lon < - 180 \<or> 180 < lon"
  then show "latlon_to_tile lat lon z tile_size = Inl (ValueError LonOutOfRange)"
    by (auto simp add: latlon_to_tile_def)
next
  assume "- 180 \<le> lon \<and> lon \<le> 180 \<and> (z < 0 \<or> 22 < z)"
  then show "latlon_to_tile lat lon z tile_size = Inl (ValueError ZoomOutOfRange)"
    by (auto simp add: latlon_to_tile_def)
next
  assume "- 180 \<le> lon \<and> lon \<le> 180 \<and> 0 \<le> z \<and> z \<le> 22 \<and> tile_size \<noteq> 0 \<and> lat \<noteq> NaN"
  then show "\<exists>t. latlon_to_tile lat lon z tile_size = Inr t"
    using latlon_to_tile_not_NaN [of lat lon z tile_size] by simp
qed

theorem latlon_to_tile_validation_witness:
  "latlon_to_tile (Finite 53.1959) 200 12 256 = Inl (ValueError LonOutOfRange)
   \<and> latlon_to_tile (Finite 53.1959) 50.1008 30 256 = Inl (ValueError ZoomOutOfRange)
   \<and> (\<exists>t. latlon_to_tile (Finite 53.1959) 50.1008 12 256 = Inr t)"
  using latlon_to_tile_validation [of 200 "Finite 53.1959" 12 256]
    latlon_to_tile_validation [of "50.1008" "Finite 53.1959" 30 256]
    latlon_to_tile_validation [of "50.1008" "Finite 53.1959" 12 256]
  by simp

text \<open>
  C10. It is not so that no latitude makes \<open>latlon_to_tile\<close> fail: with the longitude and
  the zoom in range, the call fails on a NaN latitude, which the clamp returns unchanged.
\<close>

theorem latlon_to_tile_any_latitude_counterexample:
  "- 180 \<le> (50.1008::real) \<and> (50.1008::real) \<le> 180 \<and> 0 \<le> (12::int) \<and> (12::int) \<le> 22
   \<and> clamp_lat_float NaN = NaN
   \<and> latlon_to_tile NaN 50.1008 12 256 = Inl (ValueError NaNToInteger)"
  by (simp add: latlon_to_tile_def clamp_lat_float_NaN)

text \<open>
  C10, amended. No latitude but NaN makes \<open>latlon_to_tile\<close> fail: with the longitude and
  the zoom in range the call returns a result for every latitude that is not NaN, also
  outside \<open>[-90, 90]\<close> and infinite, and the result is that of the clamped latitude, the
  latitude being clamped before anything is checked.
\<close>

theorem latlon_to_tile_any_latitude:
  assumes "- 180 \<le> lon" "lon \<le> 180" "0 \<le> z" "z \<le> 22" "tile_size \<noteq> 0"
    and "lat \<noteq> NaN"
  shows "(\<exists>t. latlon_to_tile lat lon z tile_size = Inr t)
    \<and> latlon_to_tile lat lon z tile_size = latlon_to_tile (clamp_lat_float lat) lon z tile_size"
  using latlon_to_tile_not_NaN [OF assms(6) assms(1-5)] latlon_to_tile_clamp_first [of lat lon z tile_size]
  by blast

theorem latlon_to_tile_any_latitude_witness:
  "((\<exists>t. latlon_to_tile (Finite 95) 50.1008 12 256 = Inr t)
     \<and> latlon_to_tile (Finite 95) 50.1008 12 256
        = latlon_to_tile (clamp_lat_float (Finite 95)) 50.1008 12 256)
   \<and> ((\<exists>t. latlon_to_tile NegInf 50.1008 12 256 = Inr t)
     \<and> latlon_to_tile NegInf 50.1008 12 256
        = latlon_to_tile (clamp_lat_float NegInf) 50.1008 12 256)"
  by (intro conjI latlon_to_tile_any_latitude [THEN conjunct1]
      latlon_to_tile_any_latitude [THEN conjunct2]) simp_all

subsection \<open>Grid renderer\<close>

lemma latlon_to_tile_not_grid_error:
  "latlon_to_tile lat lon z tile_size \<noteq> Inl (ValueError GridNotOddPositive)"
  by (simp add: latlon_to_tile_def Let_def split: py_float.splits)

lemma Image_new_not_grid_error:
  "Image_new w h c \<noteq> Inl (ValueError GridNotOddPositive)"
  by (simp add: Image_new_def)

lemma img_ops_draw: "img_ops (draw new img) = img_ops img @ new"
  by (simp add: draw_def)

lemma img_size_draw:
  "img_width (draw new img) = img_width img"
  "img_height (draw new img) = img_height img"
  "img_background (draw new img) = img_background img"
  by (simp_all add: draw_def)

lemma render_canvas_size:
  "img_width (render_canvas lat lon z grid tile_size center img) = img_width img"
  "img_height (render_canvas lat lon z grid tile_size center img) = img_height img"
  "img_background (render_canvas lat lon z grid tile_size center img) = img_background img"
  by (simp_all add: render_canvas_def Let_def img_size_draw split: prod.splits)

lemma draw_grid_Inr:
  assumes "draw_grid lat lon z grid tile_size = Inr img"
  shows "\<exists>center. latlon_to_tile lat lon z tile_size = Inr center
    \<and> \<not> (grid mod 2 = 0 \<or> grid < 1)
    \<and> 0 \<le> grid * tile_size
    \<and> img = render_canvas lat lon z grid tile_size center
        \<lparr>img_width = grid * tile_size, img_height = grid * tile_size,
         img_background = (255, 255, 255), img_ops = []\<rparr>"
  using assms
  by (auto simp add: draw_grid_def Image_new_def split: if_splits sum.splits)

lemma draw_grid_valid:
  assumes "- 180 \<le> lon" "lon \<le> 180" "0 \<le> z" "z \<le> 22"
    and "grid mod 2 = 1" "1 \<le> grid" "0 < tile_size"
    and "lat \<noteq> NaN"
  shows "\<exists>center. latlon_to_tile lat lon z tile_size = Inr center
    \<and> draw_grid lat lon z grid tile_size =
        Inr (render_canvas lat lon z grid tile_size center
          \<lparr>img_width = grid * tile_size, img_height = grid * tile_size,
           img_background = (255, 255, 255), img_ops = []\<rparr>)"
proof -
  from assms have ts: "tile_size \<noteq> 0" by simp
  obtain center where c: "latlon_to_tile lat lon z tile_size = Inr center"
    using latlon_to_tile_not_NaN [OF assms(8) assms(1-4) ts] by blast
  have nn: "\<not> grid * tile_size < 0"
    using assms by (simp add: not_less)
  from assms have odd: "\<not> (grid mod 2 = 0 \<or> grid < 1)"
    by simp
  show ?thesis
    by (simp add: draw_grid_def Image_new_def c nn odd)
qed

lemma filter_grid_lines: "filter is_tile_label (grid_lines grid tile_size w h) = []"
  by (simp add: grid_lines_def filter_concat comp_def)

lemma filter_tile_labels:
  "filter is_tile_label (tile_labels x_c y_c z grid half tile_size fnt)
    = tile_labels x_c y_c z grid half tile_size fnt"
  by (simp add: tile_labels_def filter_concat comp_def Let_def filter_map)

lemma tile_labels_of_render_canvas:
  "filter is_tile_label (img_ops (render_canvas lat lon z grid tile_size (x_c, y_c, px, py) img))
    = filter is_tile_label (img_ops img)
      @ tile_labels x_c y_c z grid (grid div 2) tile_size (Font 14)"
  by (simp add: render_canvas_def Let_def img_ops_draw filter_grid_lines filter_tile_labels
      try_load_font_def)

lemma center_tile_in_range:
  assumes "latlon_to_tile lat lon z tile_size = Inr (x_c, y_c, px, py)"
  shows "0 \<le> x_c \<and> x_c < 2 ^ nat z \<and> 0 \<le> y_c \<and> y_c < 2 ^ nat z"
  using assms
  by (auto simp add: latlon_to_tile_def Let_def max_def min_def split: if_splits py_float.splits)

lemma latlon_to_tile_origin: "latlon_to_tile (Finite 0) 0 0 256 = Inr (0, 0, 128, 128)"
  by (simp add: latlon_to_tile_def clamp_lat_float_Finite clamp_lat_def radians_def py_int_def)

text \<open>
  C6. For a grid size that is even or less than 1, \<open>draw_grid\<close> fails with the grid
  ValueError whatever the other arguments are (also those on which the projection would
  fail: nothing is projected or drawn); for an odd grid size of at least 1 it never fails
  with that error.
\<close>

theorem draw_grid_odd_grid:
  "(grid mod 2 = 0 \<or> grid < 1 \<longrightarrow>
      draw_grid lat lon z grid tile_size = Inl (ValueError GridNotOddPositive))
   \<and> (grid mod 2 = 1 \<and> 1 \<le> grid \<longrightarrow>
      draw_grid lat lon z grid tile_size \<noteq> Inl (ValueError GridNotOddPositive))"
proof (intro conjI impI)
  assume "grid mod 2 = 0 \<or> grid < 1"
  then show "draw_grid lat lon z grid tile_size = Inl (ValueError GridNotOddPositive)"
    by (simp add: draw_grid_def)
next
  assume "grid mod 2 = 1 \<and> 1 \<le> grid"
  then have ok: "\<not> (grid mod 2 = 0 \<or> grid < 1)" by simp
  show "draw_grid lat lon z grid tile_size \<noteq> Inl (ValueError GridNotOddPositive)"
    using latlon_to_tile_not_grid_error [of lat lon z tile_size]
      Image_new_not_grid_error [of "grid * tile_size" "grid * tile_size" "(255, 255, 255)"]
    by (auto simp add: draw_grid_def ok split: sum.splits)
qed

theorem draw_grid_odd_grid_witness:
  "draw_grid (Finite 53.1959) 200 30 4 256 = Inl (ValueError GridNotOddPositive)
   \<and> draw_grid (Finite 53.1959) 200 30 0 256 = Inl (ValueError GridNotOddPositive)
   \<and> draw_grid (Finite 53.1959) 50.1008 12 3 256 \<noteq> Inl (ValueError GridNotOddPositive)"
  using draw_grid_odd_grid [of 4 "Finite 53.1959" 200 30 256]
    draw_grid_odd_grid [of 0 "Finite 53.1959" 200 30 256]
    draw_grid_odd_grid [of 3 "Finite 53.1959" "50.1008" 12 256]
  by simp

text \<open>
  C8. On valid input (a latitude that is not NaN, longitude and zoom in range, odd
  positive grid, positive tile size) \<open>draw_grid\<close> returns an image whose canvas is \<open>grid * tile_size\<close> pixels wide and high,
  on a white background; for a grid of 3 and tiles of 256 pixels that is 768 by 768.
\<close>

theorem draw_grid_canvas_size:
  assumes "- 180 \<le> lon" "lon \<le> 180" "0 \<le> z" "z \<le> 22"
    and "grid mod 2 = 1" "1 \<le> grid" "0 < tile_size"
    and "lat \<noteq> NaN"
  shows "\<exists>img. draw_grid lat lon z grid tile_size = Inr img
    \<and> img_width img = grid * tile_size \<and> img_height img = grid * tile_size
    \<and> img_background img = (255, 255, 255)"
proof -
  obtain center where
    "draw_grid lat lon z grid tile_size =
        Inr (render_canvas lat lon z grid tile_size center
          \<lparr>img_width = grid * tile_size, img_height = grid * tile_size,
           img_background = (255, 255, 255), img_ops = []\<rparr>)"
    using draw_grid_valid [OF assms] by blast
  then show ?thesis
    by (simp add: render_canvas_size)
qed

theorem draw_grid_canvas_size_witness:
  "\<exists>img. draw_grid (Finite 53.1959) 50.1008 12 3 256 = Inr img
    \<and> img_width img = 768 \<and> img_height img = 768
    \<and> img_background img = (255, 255, 255)"
  using draw_grid_canvas_size [of "50.1008" 12 3 256 "Finite 53.1959"] by simp

text \<open>
  C7. Whenever \<open>draw_grid\<close> returns an image, the tile labels drawn on it are, row by row,
  one per cell \<open>(gx, gy)\<close> of the grid, at \<open>(gx * tile_size + 6, gy * tile_size + 6)\<close>, with
  the address \<open>(x_c + gx - grid div 2, y_c + gy - grid div 2, z)\<close>, where \<open>(x_c, y_c)\<close>
  is the tile of the point; the address is not clamped, while \<open>(x_c, y_c)\<close> is in range.
  At zoom 0, where tile 0 is the only one, a grid of 3 around the point \<open>(0, 0)\<close> has a
  label with the indices \<open>-1\<close> and one with the indices \<open>1\<close>.
\<close>

theorem draw_grid_labels_unclamped:
  "(\<forall>lat lon z grid tile_size img x_c y_c px py.
      draw_grid lat lon z grid tile_size = Inr img
      \<and> latlon_to_tile lat lon z tile_size = Inr (x_c, y_c, px, py) \<longrightarrow>
        filter is_tile_label (img_ops img) =
          concat (map (\<lambda>gy. map (\<lambda>gx.
            Text (gx * tile_size + 6, gy * tile_size + 6)
              (TileLabel (x_c + gx - grid div 2) (y_c + gy - grid div 2) z) (0, 0, 0) (Font 14))
            [0..grid - 1]) [0..grid - 1])
        \<and> 0 \<le> x_c \<and> x_c < 2 ^ nat z \<and> 0 \<le> y_c \<and> y_c < 2 ^ nat z)
   \<and> (\<exists>img. draw_grid (Finite 0) 0 0 3 256 = Inr img
        \<and> Text (6, 6) (TileLabel (- 1) (- 1) 0) (0, 0, 0) (Font 14) \<in> set (img_ops img)
        \<and> Text (518, 518) (TileLabel 1 1 0) (0, 0, 0) (Font 14) \<in> set (img_ops img))"
proof (intro conjI allI impI)
  fix lat lon z grid tile_size img x_c y_c px py
  assume a: "draw_grid lat lon z grid tile_size = Inr img
      \<and> latlon_to_tile lat lon z tile_size = Inr (x_c, y_c, px, py)"
  then obtain center where c: "latlon_to_tile lat lon z tile_size = Inr center"
    and i: "img = render_canvas lat lon z grid tile_size center
        \<lparr>img_width = grid * tile_size, img_height = grid * tile_size,
         img_background = (255, 255, 255), img_ops = []\<rparr>"
    using draw_grid_Inr [of lat lon z grid tile_size img] by blast
  from a c have "center = (x_c, y_c, px, py)" by simp
  with i show "filter is_tile_label (img_ops img) =
          concat (map (\<lambda>gy. map (\<lambda>gx.
            Text (gx * tile_size + 6, gy * tile_size + 6)
              (TileLabel (x_c + gx - grid div 2) (y_c + gy - grid div 2) z) (0, 0, 0) (Font 14))
            [0..grid - 1]) [0..grid - 1])"
    by (simp add: tile_labels_of_render_canvas tile_labels_def Let_def add_diff_eq)
  from a show "0 \<le> x_c" "x_c < 2 ^ nat z" "0 \<le> y_c" "y_c < 2 ^ nat z"
    using center_tile_in_range [of lat lon z tile_size x_c y_c px py] by simp_all
next
  have u: "[0..2] = [0, 1, 2::int]"
    by (simp add: upto.simps)
  show "\<exists>img. draw_grid (Finite 0) 0 0 3 256 = Inr img
        \<and> Text (6, 6) (TileLabel (- 1) (- 1) 0) (0, 0, 0) (Font 14) \<in> set (img_ops img)
        \<and> Text (518, 518) (TileLabel 1 1 0) (0, 0, 0) (Font 14) \<in> set (img_ops img)"
    by (simp add: draw_grid_def latlon_to_tile_origin Image_new_def render_canvas_def Let_def
        img_ops_draw tile_labels_def try_load_font_def u)
qed

theorem draw_grid_labels_unclamped_witness:
  "\<exists>img. draw_grid (Finite 0) 0 0 3 256 = Inr img
     \<and> filter is_tile_label (img_ops img) =
          concat (map (\<lambda>gy. map (\<lambda>gx.
            Text (gx * 256 + 6, gy * 256 + 6)
              (TileLabel (0 + gx - 3 div 2) (0 + gy - 3 div 2) 0) (0, 0, 0) (Font 14))
            [0..3 - 1]) [0..3 - 1])"
proof -
  obtain img where i: "draw_grid (Finite 0) 0 0 3 256 = Inr img"
    using draw_grid_labels_unclamped by blast
  with latlon_to_tile_origin draw_grid_labels_unclamped show ?thesis
    by blast
qed

subsection \<open>Batch driver\<close>










subsection \<open>Inverse projection\<close>

lemma pow2_pos: "0 < pow2 z"
  by (simp add: pow2_def)

lemma degrees_less_iff: "degrees a < degrees b \<longleftrightarrow> a < b"
  unfolding degrees_def by (rule mult_less_cancel_right_pos) simp

lemma lon_deg_strict_mono:
  assumes "0 < n" "tx < ty"
  shows "lon_deg n tx < lon_deg n ty"
  unfolding lon_deg_def
  by (intro diff_strict_right_mono mult_strict_right_mono divide_strict_right_mono)
    (use assms in simp_all)

lemma lat_deg_strict_antimono:
  assumes "0 < n" "tx < ty"
  shows "lat_deg n ty < lat_deg n tx"
proof -
  have "2 * real_of_int tx / n < 2 * real_of_int ty / n"
    using assms by (simp add: divide_strict_right_mono)
  then have "pi * (1 - 2 * real_of_int ty / n) < pi * (1 - 2 * real_of_int tx / n)"
    by (intro mult_strict_left_mono) simp_all
  then show ?thesis
    by (simp only: lat_deg_def degrees_less_iff arctan_less_iff sinh_real_less_iff)
qed

lemma pow2_nonneg: "0 \<le> z \<Longrightarrow> pow2 z = 2 ^ nat z"
  by (simp add: pow2_def)

text \<open>
  C4. For a tile \<open>(x, y)\<close> of zoom \<open>z\<close> in \<open>[0, 22]\<close> with \<open>0 \<le> x, y < 2^z\<close>, \<open>tile_to_bounds\<close>
  returns \<open>(lon_min, lat_min, lon_max, lat_max)\<close> with \<open>lat_min < lat_max\<close> and
  \<open>lon_min < lon_max\<close>, where \<open>lon_min = lon(x)\<close>, \<open>lon_max = lon(x + 1)\<close>,
  \<open>lat_max = lat(y)\<close>, \<open>lat_min = lat(y + 1)\<close> for \<open>lon(tx) = tx / n * 360 - 180\<close> and
  \<open>lat(ty) = atan(sinh(pi * (1 - 2 * ty / n)))\<close> in degrees, \<open>n = 2^z\<close>.
\<close>

theorem tile_to_bounds_ordered:
  assumes "0 \<le> z" "z \<le> 22" "0 \<le> x" "x < 2 ^ nat z" "0 \<le> y" "y < 2 ^ nat z"
  shows "\<exists>lon_min lat_min lon_max lat_max.
     tile_to_bounds x y z = (lon_min, lat_min, lon_max, lat_max)
     \<and> lat_min < lat_max \<and> lon_min < lon_max
     \<and> lon_min = real_of_int x / 2 ^ nat z * 360 - 180
     \<and> lon_max = real_of_int (x + 1) / 2 ^ nat z * 360 - 180
     \<and> lat_max = arctan (sinh (pi * (1 - 2 * real_of_int y / 2 ^ nat z))) * (180 / pi)
     \<and> lat_min = arctan (sinh (pi * (1 - 2 * real_of_int (y + 1) / 2 ^ nat z))) * (180 / pi)"
proof -
  have "lon_deg (pow2 z) x < lon_deg (pow2 z) (x + 1)"
    by (rule lon_deg_strict_mono [OF pow2_pos]) simp
  moreover have "lat_deg (pow2 z) (y + 1) < lat_deg (pow2 z) y"
    by (rule lat_deg_strict_antimono [OF pow2_pos]) simp
  ultimately show ?thesis
    unfolding tile_to_bounds_def Let_def
    by (simp add: lon_deg_def lat_deg_def degrees_def pow2_nonneg [OF \<open>0 \<le> z\<close>])
qed

theorem tile_to_bounds_ordered_witness:
  "\<exists>lon_min lat_min lon_max lat_max.
     tile_to_bounds 2387 1081 12 = (lon_min, lat_min, lon_max, lat_max)
     \<and> lat_min < lat_max \<and> lon_min < lon_max
     \<and> lon_min = 2387 / 4096 * 360 - 180
     \<and> lon_max = 2388 / 4096 * 360 - 180
     \<and> lat_max = arctan (sinh (pi * (1 - 2 * 1081 / 4096))) * (180 / pi)
     \<and> lat_min = arctan (sinh (pi * (1 - 2 * 1082 / 4096))) * (180 / pi)"
  using tile_to_bounds_ordered [of 12 2387 1081] by simp

subsection \<open>Round trip through the center of a tile\<close>

text \<open>
  The latitude of the upper edge of the second row of tiles at zoom 22 is below the
  clamping bound \<open>85.05112878\<close>. The margin is about \<open>7\<close> millionths of a degree, so the
  bound is computed: an upper bound of \<open>pi\<close> from Machin's formula and the alternating
  series of the arctangent, an upper bound of \<open>exp\<close> from its Taylor polynomial, and a
  lower bound of the arctangent from its series again.
\<close>

lemma arctan_series_bounds:
  fixes x :: real
  assumes "0 < x" "x \<le> 1"
  shows "(\<Sum>i<2 * n. (- 1) ^ i * (1 / real (i * 2 + 1) * x ^ (i * 2 + 1))) \<le> arctan x"
    and "arctan x \<le> (\<Sum>i<2 * n + 1. (- 1) ^ i * (1 / real (i * 2 + 1) * x ^ (i * 2 + 1)))"
proof -
  from assms have ax: "\<bar>x\<bar> \<le> 1" by simp
  have pos: "0 < 1 / real (0 * 2 + 1) * x ^ (0 * 2 + 1)"
    using assms by simp
  note b = summable_Leibniz(2) [OF zeroseq_arctan_series [OF ax] monoseq_arctan_series [OF ax],
      rule_format, OF pos, of n]
  from b show "(\<Sum>i<2 * n. (- 1) ^ i * (1 / real (i * 2 + 1) * x ^ (i * 2 + 1))) \<le> arctan x"
    unfolding arctan_series [OF ax] by simp
  from b show "arctan x \<le> (\<Sum>i<2 * n + 1. (- 1) ^ i * (1 / real (i * 2 + 1) * x ^ (i * 2 + 1)))"
    unfolding arctan_series [OF ax] by simp
qed

lemma pi_upper: "pi < 3.1415927"
proof -
  have a: "arctan (1 / 5) \<le> (\<Sum>i<2 * 3 + 1. (- 1) ^ i * (1 / real (i * 2 + 1) * (1 / 5) ^ (i * 2 + 1)))"
    by (rule arctan_series_bounds) simp_all
  have b: "(\<Sum>i<2 * 1. (- 1) ^ i * (1 / real (i * 2 + 1) * (1 / 239) ^ (i * 2 + 1))) \<le> arctan (1 / 239)"
    by (rule arctan_series_bounds) simp_all
  have a': "(\<Sum>i<2 * 3 + 1. (- 1) ^ i * (1 / real (i * 2 + 1) * (1 / 5) ^ (i * 2 + 1))) \<le> (0.19739555986 :: real)"
    by (simp add: eval_nat_numeral)
  have b': "(0.0041840760018 :: real) \<le> (\<Sum>i<2 * 1. (- 1) ^ i * (1 / real (i * 2 + 1) * (1 / 239) ^ (i * 2 + 1)))"
    by (simp add: eval_nat_numeral)
  have "pi = 16 * arctan (1 / 5) - 4 * arctan (1 / 239)"
    using machin by simp
  also have "\<dots> \<le> 16 * 0.19739555986 - 4 * 0.0041840760018"
    using a a' b b' by linarith
  also have "\<dots> < 3.1415927"
    by simp
  finally show ?thesis .
qed

lemma exp_taylor_upper:
  fixes y :: real
  assumes "0 \<le> y" and r: "y ^ n / fact n < 1"
  shows "exp y \<le> (\<Sum>m<n. y ^ m / fact m) / (1 - y ^ n / fact n)"
proof -
  obtain t where t: "\<bar>t\<bar> \<le> \<bar>y\<bar>"
    and e: "exp y = (\<Sum>m<n. y ^ m / fact m) + exp t / fact n * y ^ n"
    using Maclaurin_exp_le [of y n] by blast
  from t assms(1) have "t \<le> y" by simp
  then have "exp t \<le> exp y" by simp
  then have "exp t / fact n * y ^ n \<le> exp y / fact n * y ^ n"
    using assms(1) by (intro mult_right_mono divide_right_mono) simp_all
  with e have "exp y \<le> (\<Sum>m<n. y ^ m / fact m) + exp y * (y ^ n / fact n)"
    by simp
  then have "exp y * (1 - y ^ n / fact n) \<le> (\<Sum>m<n. y ^ m / fact m)"
    by (simp add: algebra_simps)
  with r show ?thesis
    by (simp add: pos_le_divide_eq)
qed

lemma exp_upper: "exp (3.1415913 :: real) \<le> 23.140662"
proof -
  have "exp (0.19634945625 :: real) \<le>
      (\<Sum>m<8. 0.19634945625 ^ m / fact m) / (1 - 0.19634945625 ^ 8 / fact 8)"
    by (rule exp_taylor_upper) (simp_all add: eval_nat_numeral)
  also have "\<dots> \<le> 1.2169521025650"
    by (simp add: eval_nat_numeral)
  finally have "exp (0.19634945625 :: real) ^ 16 \<le> 1.2169521025650 ^ 16"
    by (intro power_mono) simp_all
  also have "(1.2169521025650 :: real) ^ 16 \<le> 23.140662"
    by (simp add: power_divide)
  finally have "exp (0.19634945625 :: real) ^ 16 \<le> 23.140662" .
  moreover have "exp (3.1415913 :: real) = exp (0.19634945625) ^ 16"
    by (simp flip: exp_of_nat_mult)
  ultimately show ?thesis
    by simp
qed


lemma top_row_below_clamp:
  "arctan (sinh (pi * (1 - 2 / 2 ^ 22))) * (180 / pi) < 85.05112878"
proof -
  define p where "p = pi * (1 - 2 / 2 ^ 22)"
  have p_pos: "0 < p"
    by (simp add: p_def)
  have "p \<le> 3.1415927 * (1 - 2 / 2 ^ 22)"
    unfolding p_def using pi_upper by (intro mult_right_mono) simp_all
  also have "\<dots> \<le> (3.1415913 :: real)"
    by simp
  finally have p_le: "p \<le> 3.1415913" .
  have s_pos: "0 < sinh p"
    using p_pos by simp
  have e1: "1 \<le> exp (3.1415913 :: real)"
    by simp
  have "sinh p \<le> sinh (3.1415913 :: real)"
    using p_le by simp
  also have "\<dots> = (exp 3.1415913 - 1 / exp 3.1415913) / 2"
    by (simp add: sinh_field_def exp_minus inverse_eq_divide)
  also have "\<dots> \<le> (23.140662 - 1 / 23.140662) / 2"
  proof -
    have "1 / (23.140662 :: real) \<le> 1 / exp 3.1415913"
      using exp_upper by (intro divide_left_mono) simp_all
    with exp_upper show ?thesis by simp
  qed
  finally have s_le: "sinh p \<le> (23.140662 - 1 / 23.140662) / 2" .
  have "(0.08658965 :: real) \<le> 1 / ((23.140662 - 1 / 23.140662) / 2)"
    by simp
  also have "\<dots> \<le> 1 / sinh p"
    using s_le s_pos by (intro divide_left_mono) simp_all
  finally have v: "0.08658965 \<le> 1 / sinh p" .
  have "pi * ((90 - 85.05112878) / 180) \<le> 3.1415927 * ((90 - 85.05112878) / 180)"
    using pi_upper by (intro mult_right_mono) simp_all
  also have "\<dots> < (\<Sum>i<2 * 2. (- 1) ^ i * (1 / real (i * 2 + 1) * (0.08658965 :: real) ^ (i * 2 + 1)))"
    by (simp add: eval_nat_numeral)
  also have "\<dots> \<le> arctan 0.08658965"
    by (rule arctan_series_bounds) simp_all
  also have "\<dots> \<le> arctan (1 / sinh p)"
    using v by (simp only: arctan_le_iff)
  also have "\<dots> = pi / 2 - arctan (sinh p)"
    using s_pos arctan_inverse [of "sinh p"] by simp
  finally have "arctan (sinh p) < pi / 2 - pi * ((90 - 85.05112878) / 180)"
    by simp
  also have "\<dots> = 85.05112878 * (pi / 180)"
    by (simp add: field_simps)
  finally have "arctan (sinh p) * (180 / pi) < 85.05112878 * (pi / 180) * (180 / pi)"
    by (intro mult_strict_right_mono) simp_all
  then show ?thesis
    by (simp add: p_def)
qed

text \<open>
  On \<open>(-pi/2, pi/2)\<close> the Mercator ordinate \<open>ln (tan r + 1 / cos r)\<close> is \<open>arsinh (tan r)\<close>,
  the inverse of \<open>arctan (sinh u)\<close>: comparing a latitude with the edge \<open>lat_deg n t\<close> of a
  row is comparing its normalised ordinate, scaled by \<open>n\<close>, with \<open>t\<close>.
\<close>

lemma mercator_arsinh:
  assumes "- (pi / 2) < r" "r < pi / 2"
  shows "ln (tan r + 1 / cos r) = arsinh (tan r)"
proof -
  have c: "0 < cos r"
    using assms by (rule cos_gt_zero_pi)
  then have "(tan r)\<^sup>2 + 1 = (1 / cos r)\<^sup>2"
    using tan_sec [of r] by (simp add: inverse_eq_divide add.commute)
  then have "sqrt ((tan r)\<^sup>2 + 1) = 1 / cos r"
    using c by (simp add: real_sqrt_divide)
  then show ?thesis
    by (simp add: arsinh_real_def)
qed

lemma radians_range:
  assumes "- 90 < d" "d < 90"
  shows "- (pi / 2) < radians d" "radians d < pi / 2"
proof -
  have "(- 90) * (pi / 180) < d * (pi / 180)"
    using assms(1) by (intro mult_strict_right_mono) simp_all
  then show "- (pi / 2) < radians d"
    by (simp add: radians_def)
  have "d * (pi / 180) < 90 * (pi / 180)"
    using assms(2) by (intro mult_strict_right_mono) simp_all
  then show "radians d < pi / 2"
    by (simp add: radians_def)
qed

lemma degrees_less_radians: "degrees a < d \<longleftrightarrow> a < radians d"
  and radians_less_degrees: "d < degrees a \<longleftrightarrow> radians d < a"
  by (simp_all add: degrees_def radians_def field_simps)

lemma lat_deg_compare:
  assumes n: "0 < n" and d: "- 90 < d" "d < 90"
  shows "lat_deg n t < d \<longleftrightarrow>
      (1 - ln (tan (radians d) + 1 / cos (radians d)) / pi) / 2 * n < real_of_int t"
    and "d < lat_deg n t \<longleftrightarrow>
      real_of_int t < (1 - ln (tan (radians d) + 1 / cos (radians d)) / pi) / 2 * n"
proof -
  define r where "r = radians d"
  define m where "m = arsinh (tan r)"
  define u where "u = pi * (1 - 2 * real_of_int t / n)"
  have r: "- (pi / 2) < r" "r < pi / 2"
    unfolding r_def using d by (rule radians_range)+
  have ln_m: "ln (tan r + 1 / cos r) = m"
    unfolding m_def using r by (rule mercator_arsinh)
  have inv_m: "arctan (sinh m) = r"
    unfolding m_def using r by (simp add: arctan_tan)
  have um: "u < m \<longleftrightarrow> (1 - m / pi) / 2 * n < real_of_int t"
  proof -
    have "u < m \<longleftrightarrow> 1 - 2 * real_of_int t / n < m / pi"
      unfolding u_def by (simp add: pos_less_divide_eq mult.commute)
    also have "\<dots> \<longleftrightarrow> (1 - m / pi) / 2 < real_of_int t / n"
      by (simp add: field_simps)
    also have "\<dots> \<longleftrightarrow> (1 - m / pi) / 2 * n < real_of_int t"
      using n by (simp add: pos_less_divide_eq)
    finally show ?thesis .
  qed
  have mu: "m < u \<longleftrightarrow> real_of_int t < (1 - m / pi) / 2 * n"
  proof -
    have "m < u \<longleftrightarrow> m / pi < 1 - 2 * real_of_int t / n"
      unfolding u_def by (simp add: pos_divide_less_eq mult.commute)
    also have "\<dots> \<longleftrightarrow> real_of_int t / n < (1 - m / pi) / 2"
      by (simp add: field_simps)
    also have "\<dots> \<longleftrightarrow> real_of_int t < (1 - m / pi) / 2 * n"
      using n by (simp add: pos_divide_less_eq)
    finally show ?thesis .
  qed
  have "lat_deg n t < d \<longleftrightarrow> arctan (sinh u) < arctan (sinh m)"
    by (simp only: lat_deg_def u_def [symmetric] degrees_less_radians inv_m r_def)
  also have "\<dots> \<longleftrightarrow> u < m"
    by (simp only: arctan_less_iff sinh_real_less_iff)
  finally show "lat_deg n t < d \<longleftrightarrow>
      (1 - ln (tan (radians d) + 1 / cos (radians d)) / pi) / 2 * n < real_of_int t"
    using um ln_m by (simp add: r_def)
  have "d < lat_deg n t \<longleftrightarrow> arctan (sinh m) < arctan (sinh u)"
    by (simp only: lat_deg_def u_def [symmetric] radians_less_degrees inv_m r_def)
  also have "\<dots> \<longleftrightarrow> m < u"
    by (simp only: arctan_less_iff sinh_real_less_iff)
  finally show "d < lat_deg n t \<longleftrightarrow>
      real_of_int t < (1 - ln (tan (radians d) + 1 / cos (radians d)) / pi) / 2 * n"
    using mu ln_m by (simp add: r_def)
qed

text \<open>
  Every edge but the top one is below the clamping bound, and every edge but the bottom
  one is above its negation, so the clamped latitude of the center of a tile stays
  strictly between the two edges of its row.
\<close>

lemma lat_deg_below_clamp:
  assumes n: "0 < n" "n \<le> 2 ^ 22" and t: "1 \<le> t"
  shows "lat_deg n t < 85.05112878"
proof -
  have "2 / 2 ^ 22 \<le> 2 / n"
    using n by (intro divide_left_mono) simp_all
  also have "2 / n \<le> 2 * real_of_int t / n"
    using n t by (intro divide_right_mono) simp_all
  finally have "pi * (1 - 2 * real_of_int t / n) \<le> pi * (1 - 2 / 2 ^ 22)"
    by (intro mult_left_mono) simp_all
  then have "arctan (sinh (pi * (1 - 2 * real_of_int t / n))) * (180 / pi)
      \<le> arctan (sinh (pi * (1 - 2 / 2 ^ 22))) * (180 / pi)"
    by (intro mult_right_mono) (simp_all add: arctan_le_iff)
  with top_row_below_clamp show ?thesis
    by (simp add: lat_deg_def degrees_def)
qed

lemma lat_deg_above_clamp:
  assumes n: "0 < n" "n \<le> 2 ^ 22" and t: "real_of_int t \<le> n - 1"
  shows "- 85.05112878 < lat_deg n t"
proof -
  have "2 / 2 ^ 22 \<le> 2 / n"
    using n by (intro divide_left_mono) simp_all
  moreover have "2 * real_of_int t / n \<le> 2 * (n - 1) / n"
    using n t by (intro divide_right_mono) simp_all
  moreover have "2 * (n - 1) / n = 2 - 2 / n"
    using n by (simp add: field_simps)
  ultimately have "- (1 - 2 / 2 ^ 22) \<le> 1 - 2 * real_of_int t / n"
    by simp
  then have "pi * - (1 - 2 / 2 ^ 22) \<le> pi * (1 - 2 * real_of_int t / n)"
    by (intro mult_left_mono) simp_all
  then have "arctan (sinh (- (pi * (1 - 2 / 2 ^ 22)))) * (180 / pi)
      \<le> arctan (sinh (pi * (1 - 2 * real_of_int t / n))) * (180 / pi)"
    by (intro mult_right_mono) (simp_all add: arctan_le_iff del: sinh_minus)
  moreover have "arctan (sinh (- (pi * (1 - 2 / 2 ^ 22)))) * (180 / pi)
      = - (arctan (sinh (pi * (1 - 2 / 2 ^ 22))) * (180 / pi))"
    by (simp add: arctan_minus)
  ultimately show ?thesis
    using top_row_below_clamp by (simp add: lat_deg_def degrees_def)
qed

lemma lat_deg_range: "- 90 < lat_deg n t" "lat_deg n t < 90"
proof -
  have "(- (pi / 2)) * (180 / pi) < arctan (sinh (pi * (1 - 2 * real_of_int t / n))) * (180 / pi)"
    by (intro mult_strict_right_mono arctan_lbound) simp
  then show "- 90 < lat_deg n t"
    by (simp add: lat_deg_def degrees_def)
  have "arctan (sinh (pi * (1 - 2 * real_of_int t / n))) * (180 / pi) < pi / 2 * (180 / pi)"
    by (intro mult_strict_right_mono arctan_ubound) simp
  then show "lat_deg n t < 90"
    by (simp add: lat_deg_def degrees_def)
qed

lemma clamp_lat_between:
  assumes "a < c" "c < b" "a < 85.05112878" "- 85.05112878 < b"
  shows "a < clamp_lat c" "clamp_lat c < b"
  using assms by (simp_all add: clamp_lat_def max_def min_def)

lemma center_row:
  assumes z: "0 \<le> z" "z \<le> 22" and y: "0 \<le> y" "y < 2 ^ nat z"
  defines "n \<equiv> (2::real) ^ nat z"
  defines "c \<equiv> clamp_lat ((lat_deg n (y + 1) + lat_deg n y) / 2)"
  shows "\<lfloor>(1 - ln (tan (radians c) + 1 / cos (radians c)) / pi) / 2 * n\<rfloor> = y"
proof -
  have n_pos: "0 < n"
    by (simp add: n_def)
  have "nat z \<le> 22"
    using z by simp
  then have n_le: "n \<le> 2 ^ 22"
    unfolding n_def by (intro power_increasing) simp_all
  from y(2) have "y + 1 \<le> 2 ^ nat z"
    by simp
  then have "real_of_int (y + 1) \<le> real_of_int (2 ^ nat z)"
    by (simp only: of_int_le_iff)
  then have y_le: "real_of_int y \<le> n - 1"
    by (simp add: n_def)
  let ?a = "lat_deg n (y + 1)" and ?b = "lat_deg n y"
  have ab: "?a < ?b"
    by (rule lat_deg_strict_antimono [OF n_pos]) simp
  have a_lt: "?a < 85.05112878"
    using y(1) by (intro lat_deg_below_clamp n_pos n_le) simp
  have b_gt: "- 85.05112878 < ?b"
    by (rule lat_deg_above_clamp [OF n_pos n_le y_le])
  have between: "?a < c" "c < ?b"
    unfolding c_def using ab a_lt b_gt by (intro clamp_lat_between; simp)+
  have c_range: "- 90 < c" "c < 90"
    using between lat_deg_range [of n "y + 1"] lat_deg_range [of n y] by linarith+
  have "(1 - ln (tan (radians c) + 1 / cos (radians c)) / pi) / 2 * n < real_of_int (y + 1)"
    using between(1) lat_deg_compare(1) [OF n_pos c_range] by simp
  moreover have "real_of_int y < (1 - ln (tan (radians c) + 1 / cos (radians c)) / pi) / 2 * n"
    using between(2) lat_deg_compare(2) [OF n_pos c_range] by simp
  ultimately show ?thesis
    by (simp add: floor_eq_iff)
qed

lemma center_column:
  assumes x: "0 \<le> x" "x < 2 ^ nat z"
  defines "n \<equiv> (2::real) ^ nat z"
  defines "lon \<equiv> (lon_deg n x + lon_deg n (x + 1)) / 2"
  shows "- 180 \<le> lon" "lon \<le> 180" "\<lfloor>(lon + 180) / 360 * n\<rfloor> = x"
proof -
  have n_pos: "0 < n"
    by (simp add: n_def)
  from x(2) have "x + 1 \<le> 2 ^ nat z"
    by simp
  then have "real_of_int (x + 1) \<le> real_of_int (2 ^ nat z)"
    by (simp only: of_int_le_iff)
  then have x_lt: "real_of_int x + 1 \<le> n"
    by (simp add: n_def)
  define q where "q = (real_of_int x + 1 / 2) / n"
  have lon: "lon = q * 360 - 180"
    unfolding lon_def lon_deg_def q_def using n_pos by (simp add: field_simps)
  have q: "0 \<le> q" "q \<le> 1"
    unfolding q_def using x(1) x_lt n_pos by (simp_all add: field_simps)
  from q show "- 180 \<le> lon" "lon \<le> 180"
    unfolding lon by linarith+
  have "(lon + 180) / 360 * n = q * n"
    unfolding lon by simp
  also have "\<dots> = real_of_int x + 1 / 2"
    unfolding q_def using n_pos by simp
  finally show "\<lfloor>(lon + 180) / 360 * n\<rfloor> = x"
    by (simp add: floor_eq_iff)
qed

text \<open>
  C2. For a tile \<open>(x, y)\<close> of zoom \<open>z\<close> in \<open>[0, 22]\<close> with \<open>0 \<le> x, y < 2^z\<close>, the center of
  the rectangle that \<open>tile_to_bounds\<close> returns (the mean of the two latitudes, the mean of
  the two longitudes) is projected by \<open>latlon_to_tile\<close>, at the same zoom, to the tile
  \<open>(x, y)\<close>.
\<close>

theorem tile_center_roundtrip:
  assumes "0 \<le> z" "z \<le> 22" "0 \<le> x" "x < 2 ^ nat z" "0 \<le> y" "y < 2 ^ nat z"
    and "tile_size \<noteq> 0"
  shows "\<exists>lon_min lat_min lon_max lat_max px py.
     tile_to_bounds x y z = (lon_min, lat_min, lon_max, lat_max)
     \<and> latlon_to_tile (Finite ((lat_min + lat_max) / 2)) ((lon_min + lon_max) / 2) z tile_size
         = Inr (x, y, px, py)"
proof -
  define n :: real where "n = 2 ^ nat z"
  define lat where "lat = (lat_deg n (y + 1) + lat_deg n y) / 2"
  define lon where "lon = (lon_deg n x + lon_deg n (x + 1)) / 2"
  have b: "tile_to_bounds x y z = (lon_deg n x, lat_deg n (y + 1), lon_deg n (x + 1), lat_deg n y)"
    by (simp add: tile_to_bounds_def Let_def pow2_nonneg [OF assms(1)] n_def)
  have n: "real_of_int (2 ^ nat z) = n"
    by (simp add: n_def)
  have lon: "- 180 \<le> lon" "lon \<le> 180"
    and col: "\<lfloor>(lon + 180) / 360 * n\<rfloor> = x"
    unfolding lon_def n_def by (rule center_column [OF assms(3,4)])+
  have row: "\<lfloor>(1 - ln (tan (radians (clamp_lat lat)) + 1 / cos (radians (clamp_lat lat))) / pi) / 2 * n\<rfloor> = y"
    unfolding lat_def n_def by (rule center_row [OF assms(1,2,5,6)])
  have cx: "max 0 (min x (2 ^ nat z - 1)) = x" and cy: "max 0 (min y (2 ^ nat z - 1)) = y"
    using assms(3-6) by simp_all
  have "\<exists>px py. latlon_to_tile (Finite lat) lon z tile_size = Inr (x, y, px, py)"
    unfolding latlon_to_tile_valid [OF lon assms(1,2,7)] n col row cx cy by blast
  then show ?thesis
    unfolding b lat_def lon_def by blast
qed

theorem tile_center_roundtrip_witness:
  "\<exists>lon_min lat_min lon_max lat_max px py.
     tile_to_bounds 2387 1081 12 = (lon_min, lat_min, lon_max, lat_max)
     \<and> latlon_to_tile (Finite ((lat_min + lat_max) / 2)) ((lon_min + lon_max) / 2) 12 256
         = Inr (2387, 1081, px, py)"
  by (rule tile_center_roundtrip) simp_all

end
